theory Spec2Isabelle
  imports Main
begin

section \<open>Iterator facades of dune-common\<close>

text \<open>
  The facades of \<^verbatim>\<open>common/iteratorfacades.hh\<close> are class templates
  \<^verbatim>\<open>template<class T, class V, class R, class D>\<close>: \<open>T\<close> is the concrete (derived)
  iterator, \<open>R\<close> the reference type and \<open>D\<close> the difference type. A facade holds no
  data of its own; every operator casts \<^verbatim>\<open>this\<close> to \<open>T\<close> and calls a primitive
  of \<open>T\<close>. The embedding therefore takes

  \<^item> the state of a concrete iterator as a value of a type \<open>'it\<close>,
  \<^item> the primitives of \<open>T\<close> as a record of functions on that state (a \<^verbatim>\<open>void\<close>
    member that changes \<^verbatim>\<open>*this\<close> returns the new state),
  \<^item> the reference type \<open>R\<close> as a type \<open>'r\<close> and the difference type \<open>D\<close> as a
    type \<open>'d\<close>.

  A non-const member operator is a function from the state of \<^verbatim>\<open>*this\<close> to a pair
  (returned value, state of \<^verbatim>\<open>*this\<close> afterwards); an operator that returns
  \<^verbatim>\<open>DerivedType&\<close> returns the state of \<^verbatim>\<open>*this\<close> afterwards as its value. The copy
  \<^verbatim>\<open>DerivedType tmp(static_cast<DerivedType const&>(*this))\<close> is a \<^theory_text>\<open>let\<close>: the copy
  is a value of its own, which later calls on \<^verbatim>\<open>*this\<close> do not reach.
\<close>

subsection \<open>Primitives a concrete iterator supplies\<close>

record ('it, 'r) forward_primitives =
  dereference :: "'it \<Rightarrow> 'r"
  equals :: "'it \<Rightarrow> 'it \<Rightarrow> bool"
  increment :: "'it \<Rightarrow> 'it"

record ('it, 'r) bidirectional_primitives = "('it, 'r) forward_primitives" +
  decrement :: "'it \<Rightarrow> 'it"

record ('it, 'r, 'd) random_access_primitives = "('it, 'r) bidirectional_primitives" +
  elementAt :: "'it \<Rightarrow> 'd \<Rightarrow> 'r"
  advance :: "'it \<Rightarrow> 'd \<Rightarrow> 'it"
  distanceTo :: "'it \<Rightarrow> 'it \<Rightarrow> 'd"

subsection \<open>ForwardIteratorFacade\<close>

text \<open>\<^verbatim>\<open>Reference operator*() const\<close>\<close>

definition fwd_deref :: "('it, 'r, 'm) forward_primitives_scheme \<Rightarrow> 'it \<Rightarrow> 'r" where
  "fwd_deref P this = dereference P this"

text \<open>\<^verbatim>\<open>DerivedType& operator++()\<close>\<close>

definition fwd_pre_increment ::
  "('it, 'r, 'm) forward_primitives_scheme \<Rightarrow> 'it \<Rightarrow> 'it \<times> 'it" where
  "fwd_pre_increment P this = (let this' = increment P this in (this', this'))"

text \<open>\<^verbatim>\<open>DerivedType operator++(int)\<close>\<close>

definition fwd_post_increment ::
  "('it, 'r, 'm) forward_primitives_scheme \<Rightarrow> 'it \<Rightarrow> 'it \<times> 'it" where
  "fwd_post_increment P this =
     (let tmp = this;
          this' = snd (fwd_pre_increment P this)
      in (tmp, this'))"

subsection \<open>BidirectionalIteratorFacade\<close>

definition bidir_deref :: "('it, 'r, 'm) bidirectional_primitives_scheme \<Rightarrow> 'it \<Rightarrow> 'r" where
  "bidir_deref P this = dereference P this"

definition bidir_pre_increment ::
  "('it, 'r, 'm) bidirectional_primitives_scheme \<Rightarrow> 'it \<Rightarrow> 'it \<times> 'it" where
  "bidir_pre_increment P this = (let this' = increment P this in (this', this'))"

definition bidir_post_increment ::
  "('it, 'r, 'm) bidirectional_primitives_scheme \<Rightarrow> 'it \<Rightarrow> 'it \<times> 'it" where
  "bidir_post_increment P this =
     (let tmp = this;
          this' = snd (bidir_pre_increment P this)
      in (tmp, this'))"

text \<open>\<^verbatim>\<open>DerivedType& operator--()\<close>\<close>

definition bidir_pre_decrement ::
  "('it, 'r, 'm) bidirectional_primitives_scheme \<Rightarrow> 'it \<Rightarrow> 'it \<times> 'it" where
  "bidir_pre_decrement P this = (let this' = decrement P this in (this', this'))"

text \<open>\<^verbatim>\<open>DerivedType operator--(int)\<close>\<close>

definition bidir_post_decrement ::
  "('it, 'r, 'm) bidirectional_primitives_scheme \<Rightarrow> 'it \<Rightarrow> 'it \<times> 'it" where
  "bidir_post_decrement P this =
     (let tmp = this;
          this' = snd (bidir_pre_decrement P this)
      in (tmp, this'))"

subsection \<open>RandomAccessIteratorFacade\<close>

definition ra_deref :: "('it, 'r, 'd, 'm) random_access_primitives_scheme \<Rightarrow> 'it \<Rightarrow> 'r" where
  "ra_deref P this = dereference P this"

text \<open>\<^verbatim>\<open>Reference operator[](DifferenceType n) const\<close>\<close>

definition ra_index ::
  "('it, 'r, 'd, 'm) random_access_primitives_scheme \<Rightarrow> 'it \<Rightarrow> 'd \<Rightarrow> 'r" where
  "ra_index P this n = elementAt P this n"

definition ra_pre_increment ::
  "('it, 'r, 'd, 'm) random_access_primitives_scheme \<Rightarrow> 'it \<Rightarrow> 'it \<times> 'it" where
  "ra_pre_increment P this = (let this' = increment P this in (this', this'))"

definition ra_post_increment ::
  "('it, 'r, 'd, 'm) random_access_primitives_scheme \<Rightarrow> 'it \<Rightarrow> 'it \<times> 'it" where
  "ra_post_increment P this =
     (let tmp = this;
          this' = snd (ra_pre_increment P this)
      in (tmp, this'))"

text \<open>\<^verbatim>\<open>DerivedType& operator+=(DifferenceType n)\<close>\<close>

definition ra_plus_assign ::
  "('it, 'r, 'd, 'm) random_access_primitives_scheme \<Rightarrow> 'it \<Rightarrow> 'd \<Rightarrow> 'it \<times> 'it" where
  "ra_plus_assign P this n = (let this' = advance P this n in (this', this'))"

text \<open>\<^verbatim>\<open>DerivedType operator+(DifferenceType n)\<close>: a member that is not declared
  const; the second component is the state it leaves \<^verbatim>\<open>*this\<close> in.\<close>

definition ra_plus ::
  "('it, 'r, 'd, 'm) random_access_primitives_scheme \<Rightarrow> 'it \<Rightarrow> 'd \<Rightarrow> 'it \<times> 'it" where
  "ra_plus P this n =
     (let tmp = this;
          tmp' = advance P tmp n
      in (tmp', this))"

definition ra_pre_decrement ::
  "('it, 'r, 'd, 'm) random_access_primitives_scheme \<Rightarrow> 'it \<Rightarrow> 'it \<times> 'it" where
  "ra_pre_decrement P this = (let this' = decrement P this in (this', this'))"

definition ra_post_decrement ::
  "('it, 'r, 'd, 'm) random_access_primitives_scheme \<Rightarrow> 'it \<Rightarrow> 'it \<times> 'it" where
  "ra_post_decrement P this =
     (let tmp = this;
          this' = snd (ra_pre_decrement P this)
      in (tmp, this'))"

text \<open>\<^verbatim>\<open>DerivedType& operator-=(DifferenceType n)\<close>\<close>

definition ra_minus_assign ::
  "('it, 'r, 'd::uminus, 'm) random_access_primitives_scheme \<Rightarrow> 'it \<Rightarrow> 'd \<Rightarrow> 'it \<times> 'it" where
  "ra_minus_assign P this n = (let this' = advance P this (- n) in (this', this'))"

text \<open>\<^verbatim>\<open>DerivedType operator-(DifferenceType n)\<close>\<close>

definition ra_minus ::
  "('it, 'r, 'd::uminus, 'm) random_access_primitives_scheme \<Rightarrow> 'it \<Rightarrow> 'd \<Rightarrow> 'it \<times> 'it" where
  "ra_minus P this n =
     (let tmp = this;
          tmp' = advance P tmp (- n)
      in (tmp', this))"

subsection \<open>Pairs of concrete iterator types\<close>

text \<open>
  The free operators are templates over two concrete types \<open>T1\<close> (left operand) and
  \<open>T2\<close> (right operand) with one difference type \<open>D\<close>. What an instantiation knows
  about the two types is collected in a record: whether each type converts implicitly to
  the other, and the overloads of the primitives that take the other type,
  \<^verbatim>\<open>T1::equals(const T2&)\<close> and \<^verbatim>\<open>T2::equals(const T1&)\<close> (both calls are
  compiled, since the operators branch with an ordinary \<^verbatim>\<open>if\<close>).
\<close>

record ('a, 'b) type_pair =
  convertible_T1_T2 :: bool
  convertible_T2_T1 :: bool
  T1_equals :: "'a \<Rightarrow> 'b \<Rightarrow> bool"
  T2_equals :: "'b \<Rightarrow> 'a \<Rightarrow> bool"

record ('a, 'b, 'd) random_access_pair = "('a, 'b) type_pair" +
  T1_distanceTo :: "'a \<Rightarrow> 'b \<Rightarrow> 'd"
  T2_distanceTo :: "'b \<Rightarrow> 'a \<Rightarrow> 'd"

text \<open>\<^verbatim>\<open>IsInteroperable<T1,T2>::value\<close> of \<^verbatim>\<open>dune/common/typetraits.hh\<close>.\<close>

definition IsInteroperable :: "('a, 'b, 'm) type_pair_scheme \<Rightarrow> bool" where
  "IsInteroperable X = (convertible_T1_T2 X \<or> convertible_T2_T1 X)"

text \<open>
  \<^verbatim>\<open>EnableIfInterOperable<T1,T2,Type>::type\<close>: the return type exists only for an
  interoperable pair; without it the operator is no candidate and the call does not
  compile, which is the result \<open>None\<close>.
\<close>

definition EnableIfInterOperable :: "('a, 'b, 'm) type_pair_scheme \<Rightarrow> 'v \<Rightarrow> 'v option" where
  "EnableIfInterOperable X v = (if IsInteroperable X then Some v else None)"

text \<open>
  Modelled from the spec: the template \<^verbatim>\<open>Conversion<From,To>\<close> that the operators
  test as \<^verbatim>\<open>Conversion<T2,T1>::exists\<close> is declared in a header that is not among the
  sources. By the dispatch rule of the specification it holds when the right-hand
  concrete type is convertible to the left-hand concrete type.
\<close>

definition Conversion_T2_T1_exists :: "('a, 'b, 'm) type_pair_scheme \<Rightarrow> bool" where
  "Conversion_T2_T1_exists X = convertible_T2_T1 X"

text \<open>The instantiation with the operands exchanged: \<open>T2\<close> on the left, \<open>T1\<close> on the right.\<close>

definition exchanged :: "('a, 'b, 'm) type_pair_scheme \<Rightarrow> ('b, 'a) type_pair" where
  "exchanged X =
     \<lparr>convertible_T1_T2 = convertible_T2_T1 X,
      convertible_T2_T1 = convertible_T1_T2 X,
      T1_equals = T2_equals X,
      T2_equals = T1_equals X\<rparr>"

text \<open>
  Both operands of the same concrete type \<open>T\<close>: a type that can be copied converts to
  itself, and both overloads are the one \<^verbatim>\<open>T::equals\<close>, \<^verbatim>\<open>T::distanceTo\<close>.
\<close>

definition same_type ::
  "('it, 'r, 'd, 'm) random_access_primitives_scheme \<Rightarrow> ('it, 'it, 'd) random_access_pair" where
  "same_type P =
     \<lparr>convertible_T1_T2 = True,
      convertible_T2_T1 = True,
      T1_equals = equals P,
      T2_equals = equals P,
      T1_distanceTo = distanceTo P,
      T2_distanceTo = distanceTo P\<rparr>"

subsection \<open>Free operators on ForwardIteratorFacade\<close>

text \<open>\<^verbatim>\<open>operator==(const ForwardIteratorFacade<T1,..>& lhs, const ForwardIteratorFacade<T2,..>& rhs)\<close>\<close>

definition fwd_eq :: "('a, 'b, 'm) type_pair_scheme \<Rightarrow> 'a \<Rightarrow> 'b \<Rightarrow> bool option" where
  "fwd_eq X lhs rhs =
     EnableIfInterOperable X
       (if Conversion_T2_T1_exists X then T1_equals X lhs rhs
        else T2_equals X rhs lhs)"

text \<open>\<^verbatim>\<open>operator!=\<close>\<close>

definition fwd_neq :: "('a, 'b, 'm) type_pair_scheme \<Rightarrow> 'a \<Rightarrow> 'b \<Rightarrow> bool option" where
  "fwd_neq X lhs rhs =
     EnableIfInterOperable X
       (if Conversion_T2_T1_exists X then \<not> T1_equals X lhs rhs
        else \<not> T2_equals X rhs lhs)"

subsection \<open>Free operators on BidirectionalIteratorFacade\<close>

definition bidir_eq :: "('a, 'b, 'm) type_pair_scheme \<Rightarrow> 'a \<Rightarrow> 'b \<Rightarrow> bool option" where
  "bidir_eq X lhs rhs =
     EnableIfInterOperable X
       (if Conversion_T2_T1_exists X then T1_equals X lhs rhs
        else T2_equals X rhs lhs)"

definition bidir_neq :: "('a, 'b, 'm) type_pair_scheme \<Rightarrow> 'a \<Rightarrow> 'b \<Rightarrow> bool option" where
  "bidir_neq X lhs rhs =
     EnableIfInterOperable X
       (if Conversion_T2_T1_exists X then \<not> T1_equals X lhs rhs
        else \<not> T2_equals X rhs lhs)"

subsection \<open>Free operators on RandomAccessIteratorFacade\<close>

definition ra_eq :: "('a, 'b, 'm) type_pair_scheme \<Rightarrow> 'a \<Rightarrow> 'b \<Rightarrow> bool option" where
  "ra_eq X lhs rhs =
     EnableIfInterOperable X
       (if Conversion_T2_T1_exists X then T1_equals X lhs rhs
        else T2_equals X rhs lhs)"

definition ra_neq :: "('a, 'b, 'm) type_pair_scheme \<Rightarrow> 'a \<Rightarrow> 'b \<Rightarrow> bool option" where
  "ra_neq X lhs rhs =
     EnableIfInterOperable X
       (if Conversion_T2_T1_exists X then \<not> T1_equals X lhs rhs
        else \<not> T2_equals X rhs lhs)"

text \<open>\<^verbatim>\<open>operator<\<close>\<close>

definition ra_less ::
  "('a, 'b, 'd::{zero, ord}, 'm) random_access_pair_scheme \<Rightarrow> 'a \<Rightarrow> 'b \<Rightarrow> bool option" where
  "ra_less X lhs rhs =
     EnableIfInterOperable X
       (if Conversion_T2_T1_exists X then T1_distanceTo X lhs rhs > 0
        else T2_distanceTo X rhs lhs < 0)"

text \<open>\<^verbatim>\<open>operator<=\<close>\<close>

definition ra_less_eq ::
  "('a, 'b, 'd::{zero, ord}, 'm) random_access_pair_scheme \<Rightarrow> 'a \<Rightarrow> 'b \<Rightarrow> bool option" where
  "ra_less_eq X lhs rhs =
     EnableIfInterOperable X
       (if Conversion_T2_T1_exists X then T1_distanceTo X lhs rhs \<ge> 0
        else T2_distanceTo X rhs lhs \<le> 0)"

text \<open>\<^verbatim>\<open>operator>\<close>\<close>

definition ra_greater ::
  "('a, 'b, 'd::{zero, ord}, 'm) random_access_pair_scheme \<Rightarrow> 'a \<Rightarrow> 'b \<Rightarrow> bool option" where
  "ra_greater X lhs rhs =
     EnableIfInterOperable X
       (if Conversion_T2_T1_exists X then T1_distanceTo X lhs rhs < 0
        else T2_distanceTo X rhs lhs > 0)"

text \<open>\<^verbatim>\<open>operator>=\<close>\<close>

definition ra_greater_eq ::
  "('a, 'b, 'd::{zero, ord}, 'm) random_access_pair_scheme \<Rightarrow> 'a \<Rightarrow> 'b \<Rightarrow> bool option" where
  "ra_greater_eq X lhs rhs =
     EnableIfInterOperable X
       (if Conversion_T2_T1_exists X then T1_distanceTo X lhs rhs \<le> 0
        else T2_distanceTo X rhs lhs \<ge> 0)"

text \<open>\<^verbatim>\<open>operator-\<close> on two iterators\<close>

definition ra_difference ::
  "('a, 'b, 'd::uminus, 'm) random_access_pair_scheme \<Rightarrow> 'a \<Rightarrow> 'b \<Rightarrow> 'd option" where
  "ra_difference X lhs rhs =
     EnableIfInterOperable X
       (if Conversion_T2_T1_exists X then - T1_distanceTo X lhs rhs
        else T2_distanceTo X rhs lhs)"

subsection \<open>math.hh\<close>

text \<open>\<^verbatim>\<open>template <class T> int sign(const T& val) { return (val < 0 ? -1 : 1); }\<close>\<close>

definition sign :: "'a::{zero, ord} \<Rightarrow> int" where
  "sign val = (if val < 0 then - 1 else 1)"

section \<open>Contracts on the primitives\<close>

text \<open>
  The conditions a concrete random-access iterator is asked to meet, on the positions
  \<open>inb\<close> that are within the bounds of its sequence: after \<^verbatim>\<open>a.advance(d)\<close> the
  iterator \<^verbatim>\<open>equals\<close> \<open>b\<close> exactly when \<open>d\<close> is \<^verbatim>\<open>a.distanceTo(b)\<close>; the distance
  changes sign when the two iterators change places. Two further properties belong to
  what an iterator is: \<^verbatim>\<open>equals\<close> tells whether two positions denote the same
  element, so a position equals itself; and \<^verbatim>\<open>advance(0)\<close> does not move.
\<close>

definition distance_consistent ::
  "('it, 'r, 'd, 'm) random_access_primitives_scheme \<Rightarrow> ('it \<Rightarrow> bool) \<Rightarrow> bool" where
  "distance_consistent P inb =
     (\<forall>a b d. inb a \<and> inb b \<and> inb (advance P a d) \<longrightarrow>
        (equals P (advance P a d) b \<longleftrightarrow> d = distanceTo P a b))"

definition distance_antisymmetric ::
  "('it, 'r, 'd::uminus, 'm) random_access_primitives_scheme \<Rightarrow> ('it \<Rightarrow> bool) \<Rightarrow> bool" where
  "distance_antisymmetric P inb =
     (\<forall>a b. inb a \<and> inb b \<longrightarrow> distanceTo P a b = - distanceTo P b a)"

definition equals_reflexive ::
  "('it, 'r, 'm) forward_primitives_scheme \<Rightarrow> ('it \<Rightarrow> bool) \<Rightarrow> bool" where
  "equals_reflexive P inb = (\<forall>a. inb a \<longrightarrow> equals P a a)"

definition advance_zero_stays ::
  "('it, 'r, 'd::zero, 'm) random_access_primitives_scheme \<Rightarrow> ('it \<Rightarrow> bool) \<Rightarrow> bool" where
  "advance_zero_stays P inb = (\<forall>a. inb a \<longrightarrow> advance P a 0 = a)"

section \<open>Concrete iterators\<close>

subsection \<open>An iterator after the header's example\<close>

text \<open>
  The header illustrates the facades with \<^verbatim>\<open>TestIterator<C,T>\<close>, an iterator that holds
  its container and a position in it and exists in a mutable and a constant variant.
  The iterator here follows its primitives: the container is the list of its values, the
  position an integer, and the variant a type parameter. The example's \<^verbatim>\<open>assert\<close> on
  the containers in \<^verbatim>\<open>distanceTo\<close> is left out, as under \<^verbatim>\<open>NDEBUG\<close>. The printed
  example has converting constructors in both directions; which conversions exist is
  fixed separately below, per pair of variants.
\<close>

datatype mutable_access = Mutable_access

datatype const_access = Const_access

datatype 'q test_iterator = TestIterator (container: "int list") (position: int)

definition value_at :: "int list \<Rightarrow> int \<Rightarrow> int option" where
  "value_at xs i = (if 0 \<le> i \<and> i < int (length xs) then Some (xs ! nat i) else None)"

definition test_equals :: "'p test_iterator \<Rightarrow> 'q test_iterator \<Rightarrow> bool" where
  "test_equals i other = (position i = position other \<and> container i = container other)"

definition test_dereference :: "'q test_iterator \<Rightarrow> int option" where
  "test_dereference i = value_at (container i) (position i)"

definition test_increment :: "'q test_iterator \<Rightarrow> 'q test_iterator" where
  "test_increment i = TestIterator (container i) (position i + 1)"

definition test_decrement :: "'q test_iterator \<Rightarrow> 'q test_iterator" where
  "test_decrement i = TestIterator (container i) (position i - 1)"

definition test_elementAt :: "'q test_iterator \<Rightarrow> int \<Rightarrow> int option" where
  "test_elementAt i n = value_at (container i) (position i + n)"

definition test_advance :: "'q test_iterator \<Rightarrow> int \<Rightarrow> 'q test_iterator" where
  "test_advance i n = TestIterator (container i) (position i + n)"

definition test_distanceTo :: "'p test_iterator \<Rightarrow> 'q test_iterator \<Rightarrow> int" where
  "test_distanceTo i other = position other - position i"

definition test_primitives :: "('q test_iterator, int option, int) random_access_primitives" where
  "test_primitives =
     \<lparr>dereference = test_dereference,
      equals = test_equals,
      increment = test_increment,
      decrement = test_decrement,
      elementAt = test_elementAt,
      advance = test_advance,
      distanceTo = test_distanceTo\<rparr>"

text \<open>Within the bounds of the container \<open>xs\<close>: from its first element to one past its last.\<close>

definition test_in_bounds :: "int list \<Rightarrow> 'q test_iterator \<Rightarrow> bool" where
  "test_in_bounds xs i =
     (container i = xs \<and> 0 \<le> position i \<and> position i \<le> int (length xs))"

text \<open>The constant iterator constructed from a mutable one.\<close>

definition to_const :: "mutable_access test_iterator \<Rightarrow> const_access test_iterator" where
  "to_const m = TestIterator (container m) (position m)"

text \<open>
  Mutable on the left, constant on the right, for variants of which only the mutable one
  converts to the constant one (as a container's \<^verbatim>\<open>iterator\<close> and
  \<^verbatim>\<open>const_iterator\<close> do; unlike the printed example, the constant variant has no
  constructor to the mutable one).
\<close>

definition mutable_const ::
  "(mutable_access test_iterator, const_access test_iterator, int) random_access_pair" where
  "mutable_const =
     \<lparr>convertible_T1_T2 = True,
      convertible_T2_T1 = False,
      T1_equals = test_equals,
      T2_equals = test_equals,
      T1_distanceTo = test_distanceTo,
      T2_distanceTo = test_distanceTo\<rparr>"

text \<open>Constant on the left, mutable on the right.\<close>

definition const_mutable ::
  "(const_access test_iterator, mutable_access test_iterator, int) random_access_pair" where
  "const_mutable =
     \<lparr>convertible_T1_T2 = False,
      convertible_T2_T1 = True,
      T1_equals = test_equals,
      T2_equals = test_equals,
      T1_distanceTo = test_distanceTo,
      T2_distanceTo = test_distanceTo\<rparr>"

text \<open>
  Two types that convert to each other. The overloads of the right-hand type answer
  differently from those of the left-hand type, so a result tells which was called.
\<close>

definition two_way ::
  "(mutable_access test_iterator, const_access test_iterator, int) random_access_pair" where
  "two_way =
     \<lparr>convertible_T1_T2 = True,
      convertible_T2_T1 = True,
      T1_equals = test_equals,
      T2_equals = (\<lambda>rhs lhs. False),
      T1_distanceTo = test_distanceTo,
      T2_distanceTo = (\<lambda>rhs lhs. 0)\<rparr>"

definition five :: "int list" where
  "five = [10, 20, 30, 40, 50]"

definition begin_five :: "'q test_iterator" where
  "begin_five = TestIterator five 0"

section \<open>Properties\<close>

subsection \<open>Facts about the concrete iterators\<close>

text \<open>
  The scenario of the specification: over the container \<open>[10,20,30,40,50]\<close> the
  iterator at position 0 dereferences to 10 and after two increments to 30,
  \<^verbatim>\<open>end - begin\<close> is 5, \<^verbatim>\<open>begin + 3\<close> dereferences to 40,
  \<^verbatim>\<open>(begin+3) < (begin+4)\<close> holds and \<^verbatim>\<open>(begin+4) - (begin+1)\<close> is 3.
\<close>

lemma five_scenario:
  fixes b :: "const_access test_iterator"
  assumes "b = begin_five"
  shows "ra_deref test_primitives b = Some 10"
    and "ra_deref test_primitives
           (snd (ra_pre_increment test_primitives (snd (ra_pre_increment test_primitives b))))
         = Some 30"
    and "ra_difference (same_type test_primitives) (fst (ra_plus test_primitives b 5)) b = Some 5"
    and "ra_deref test_primitives (fst (ra_plus test_primitives b 3)) = Some 40"
    and "ra_less (same_type test_primitives)
           (fst (ra_plus test_primitives b 3)) (fst (ra_plus test_primitives b 4)) = Some True"
    and "ra_difference (same_type test_primitives)
           (fst (ra_plus test_primitives b 4)) (fst (ra_plus test_primitives b 1)) = Some 3"
  using assms
  by (simp_all add: ra_deref_def ra_pre_increment_def ra_plus_def ra_difference_def ra_less_def
      same_type_def EnableIfInterOperable_def IsInteroperable_def Conversion_T2_T1_exists_def
      test_primitives_def test_dereference_def test_increment_def test_advance_def
      test_distanceTo_def begin_five_def five_def value_at_def Let_def)

lemma test_consistent: "distance_consistent test_primitives (test_in_bounds xs)"
  by (auto simp add: distance_consistent_def test_primitives_def test_in_bounds_def
      test_equals_def test_advance_def test_distanceTo_def)

lemma test_antisymmetric: "distance_antisymmetric test_primitives (test_in_bounds xs)"
  unfolding distance_antisymmetric_def
  by (simp add: test_primitives_def test_distanceTo_def)

lemma test_reflexive: "equals_reflexive test_primitives (test_in_bounds xs)"
  by (simp add: equals_reflexive_def test_primitives_def test_equals_def)

subsection \<open>Ordering and difference of two iterators\<close>

text \<open>
  C1. For an interoperable pair whose two \<^verbatim>\<open>distanceTo\<close> overloads are antisymmetric at
  \<open>lhs\<close> and \<open>rhs\<close>, \<^verbatim>\<open>lhs < rhs\<close> is true exactly when \<^verbatim>\<open>lhs.distanceTo(rhs) > 0\<close>,
  whether the operator calls the left primitive (\<open>T2\<close> converts to \<open>T1\<close>) or the right
  one. The operator itself only compares a distance with zero; the negation belongs to
  the antisymmetry condition, which is read in an ordered group such as the integers
  (negating the least value of a fixed-width signed type is undefined in C++, so no such
  distance satisfies the condition there).
\<close>

theorem ra_less_sign_convention:
  fixes X :: "('a, 'b, 'd::ordered_ab_group_add, 'm) random_access_pair_scheme"
  assumes "IsInteroperable X"
    and "T1_distanceTo X lhs rhs = - T2_distanceTo X rhs lhs"
  shows "ra_less X lhs rhs = Some (T1_distanceTo X lhs rhs > 0)"
  using assms by (simp add: ra_less_def EnableIfInterOperable_def)

theorem ra_less_sign_convention_witness:
  "IsInteroperable mutable_const
   \<and> \<not> Conversion_T2_T1_exists mutable_const
   \<and> T1_distanceTo mutable_const (TestIterator five 3) (TestIterator five 4)
       = - T2_distanceTo mutable_const (TestIterator five 4) (TestIterator five 3)
   \<and> ra_less mutable_const (TestIterator five 3) (TestIterator five 4) = Some True
   \<and> IsInteroperable const_mutable
   \<and> Conversion_T2_T1_exists const_mutable
   \<and> T1_distanceTo const_mutable (TestIterator five 3) (TestIterator five 4)
       = - T2_distanceTo const_mutable (TestIterator five 4) (TestIterator five 3)
   \<and> ra_less const_mutable (TestIterator five 3) (TestIterator five 4) = Some True"
  using ra_less_sign_convention [of mutable_const "TestIterator five 3" "TestIterator five 4"]
    ra_less_sign_convention [of const_mutable "TestIterator five 3" "TestIterator five 4"]
  by (simp add: IsInteroperable_def Conversion_T2_T1_exists_def mutable_const_def
      const_mutable_def test_distanceTo_def)

text \<open>
  C2. Under the same conditions \<^verbatim>\<open>lhs - rhs\<close> is the negation of
  \<^verbatim>\<open>lhs.distanceTo(rhs)\<close>, which is \<^verbatim>\<open>rhs.distanceTo(lhs)\<close>, the distance from
  \<open>rhs\<close> to \<open>lhs\<close>, in either dispatch direction. Any group serves as difference type,
  so this also covers arithmetic that wraps around.
\<close>

theorem ra_difference_negated_distance:
  fixes X :: "('a, 'b, 'd::group_add, 'm) random_access_pair_scheme"
  assumes "IsInteroperable X"
    and "T1_distanceTo X lhs rhs = - T2_distanceTo X rhs lhs"
  shows "ra_difference X lhs rhs = Some (- T1_distanceTo X lhs rhs)
       \<and> ra_difference X lhs rhs = Some (T2_distanceTo X rhs lhs)"
  using assms by (simp add: ra_difference_def EnableIfInterOperable_def)

theorem ra_difference_negated_distance_witness:
  "IsInteroperable mutable_const
   \<and> \<not> Conversion_T2_T1_exists mutable_const
   \<and> T1_distanceTo mutable_const (TestIterator five 4) (TestIterator five 1)
       = - T2_distanceTo mutable_const (TestIterator five 1) (TestIterator five 4)
   \<and> ra_difference mutable_const (TestIterator five 4) (TestIterator five 1) = Some 3
   \<and> IsInteroperable const_mutable
   \<and> Conversion_T2_T1_exists const_mutable
   \<and> T1_distanceTo const_mutable (TestIterator five 4) (TestIterator five 1)
       = - T2_distanceTo const_mutable (TestIterator five 1) (TestIterator five 4)
   \<and> ra_difference const_mutable (TestIterator five 4) (TestIterator five 1) = Some 3"
  using ra_difference_negated_distance
      [of mutable_const "TestIterator five 4" "TestIterator five 1"]
    ra_difference_negated_distance
      [of const_mutable "TestIterator five 4" "TestIterator five 1"]
  by (simp add: IsInteroperable_def Conversion_T2_T1_exists_def mutable_const_def
      const_mutable_def test_distanceTo_def)

subsection \<open>Dispatch\<close>

text \<open>
  C3. When each of the two concrete types converts to the other, every free operator of
  the three facades is computed from the left operand's primitive alone: the equality
  operators from \<^verbatim>\<open>lhs.equals(rhs)\<close>, the orderings and the difference from
  \<^verbatim>\<open>lhs.distanceTo(rhs)\<close>. The right operand's overloads do not occur in the results.
\<close>

theorem both_convertible_left_primitive:
  fixes X :: "('a, 'b, 'd::{zero, ord, uminus}, 'm) random_access_pair_scheme"
  assumes "convertible_T1_T2 X" and "convertible_T2_T1 X"
  shows "fwd_eq X lhs rhs = Some (T1_equals X lhs rhs)
       \<and> fwd_neq X lhs rhs = Some (\<not> T1_equals X lhs rhs)
       \<and> bidir_eq X lhs rhs = Some (T1_equals X lhs rhs)
       \<and> bidir_neq X lhs rhs = Some (\<not> T1_equals X lhs rhs)
       \<and> ra_eq X lhs rhs = Some (T1_equals X lhs rhs)
       \<and> ra_neq X lhs rhs = Some (\<not> T1_equals X lhs rhs)
       \<and> ra_less X lhs rhs = Some (T1_distanceTo X lhs rhs > 0)
       \<and> ra_less_eq X lhs rhs = Some (T1_distanceTo X lhs rhs \<ge> 0)
       \<and> ra_greater X lhs rhs = Some (T1_distanceTo X lhs rhs < 0)
       \<and> ra_greater_eq X lhs rhs = Some (T1_distanceTo X lhs rhs \<le> 0)
       \<and> ra_difference X lhs rhs = Some (- T1_distanceTo X lhs rhs)"
  using assms
  by (simp add: fwd_eq_def fwd_neq_def bidir_eq_def bidir_neq_def ra_eq_def ra_neq_def
      ra_less_def ra_less_eq_def ra_greater_def ra_greater_eq_def ra_difference_def
      EnableIfInterOperable_def IsInteroperable_def Conversion_T2_T1_exists_def)

theorem both_convertible_left_primitive_witness:
  "convertible_T1_T2 two_way \<and> convertible_T2_T1 two_way
   \<and> fwd_eq two_way (TestIterator five 3) (TestIterator five 3) = Some True
   \<and> fwd_neq two_way (TestIterator five 3) (TestIterator five 3) = Some False
   \<and> bidir_eq two_way (TestIterator five 3) (TestIterator five 3) = Some True
   \<and> bidir_neq two_way (TestIterator five 3) (TestIterator five 3) = Some False
   \<and> ra_eq two_way (TestIterator five 3) (TestIterator five 3) = Some True
   \<and> ra_neq two_way (TestIterator five 3) (TestIterator five 3) = Some False
   \<and> ra_less two_way (TestIterator five 3) (TestIterator five 4) = Some True
   \<and> ra_less_eq two_way (TestIterator five 3) (TestIterator five 4) = Some True
   \<and> ra_greater two_way (TestIterator five 3) (TestIterator five 4) = Some False
   \<and> ra_greater_eq two_way (TestIterator five 3) (TestIterator five 4) = Some False
   \<and> ra_difference two_way (TestIterator five 3) (TestIterator five 4) = Some (- 1)"
  using both_convertible_left_primitive [of two_way "TestIterator five 3" "TestIterator five 3"]
    both_convertible_left_primitive [of two_way "TestIterator five 3" "TestIterator five 4"]
  by (simp add: two_way_def test_equals_def test_distanceTo_def)

text \<open>
  C5. When the mutable type converts to the constant type and not the other way round,
  \<^verbatim>\<open>m == c\<close> and \<^verbatim>\<open>c == m\<close> are the same call \<^verbatim>\<open>c.equals(m)\<close> with the same
  result, for the operators of each facade; where that primitive finds \<open>m\<close> and \<open>c\<close> at
  the same position, both are true.
\<close>

theorem mutable_const_equality_same_call:
  assumes "convertible_T1_T2 X" and "\<not> convertible_T2_T1 X"
  shows "fwd_eq X m c = Some (T2_equals X c m)
       \<and> fwd_eq (exchanged X) c m = Some (T2_equals X c m)
       \<and> bidir_eq X m c = Some (T2_equals X c m)
       \<and> bidir_eq (exchanged X) c m = Some (T2_equals X c m)
       \<and> ra_eq X m c = Some (T2_equals X c m)
       \<and> ra_eq (exchanged X) c m = Some (T2_equals X c m)
       \<and> (T2_equals X c m \<longrightarrow>
            fwd_eq X m c = Some True \<and> fwd_eq (exchanged X) c m = Some True
            \<and> bidir_eq X m c = Some True \<and> bidir_eq (exchanged X) c m = Some True
            \<and> ra_eq X m c = Some True \<and> ra_eq (exchanged X) c m = Some True)"
  using assms
  by (simp add: fwd_eq_def bidir_eq_def ra_eq_def exchanged_def
      EnableIfInterOperable_def IsInteroperable_def Conversion_T2_T1_exists_def)

theorem mutable_const_equality_same_call_witness:
  "convertible_T1_T2 mutable_const \<and> \<not> convertible_T2_T1 mutable_const
   \<and> T2_equals mutable_const (to_const (TestIterator five 2)) (TestIterator five 2)
   \<and> fwd_eq mutable_const (TestIterator five 2) (to_const (TestIterator five 2)) = Some True
   \<and> fwd_eq (exchanged mutable_const) (to_const (TestIterator five 2)) (TestIterator five 2)
       = Some True
   \<and> ra_eq mutable_const (TestIterator five 2) (to_const (TestIterator five 2)) = Some True
   \<and> ra_eq (exchanged mutable_const) (to_const (TestIterator five 2)) (TestIterator five 2)
       = Some True
   \<and> fwd_eq mutable_const (TestIterator five 2) (to_const (TestIterator five 3)) = Some False
   \<and> fwd_eq (exchanged mutable_const) (to_const (TestIterator five 3)) (TestIterator five 2)
       = Some False"
  using mutable_const_equality_same_call
      [of mutable_const "TestIterator five 2" "to_const (TestIterator five 2)"]
    mutable_const_equality_same_call
      [of mutable_const "TestIterator five 2" "to_const (TestIterator five 3)"]
  by (simp add: mutable_const_def to_const_def test_equals_def)

subsection \<open>Increment and decrement\<close>

text \<open>
  C4. Post-increment on the forward facade returns the state the iterator had before
  the call, so the returned copy dereferences to the value from before the increment,
  and it leaves the iterator in the state one call of \<^verbatim>\<open>increment()\<close> produces.
\<close>

theorem post_increment_returns_old_state:
  "fst (fwd_post_increment P it) = it
   \<and> fwd_deref P (fst (fwd_post_increment P it)) = fwd_deref P it
   \<and> snd (fwd_post_increment P it) = increment P it"
  by (simp add: fwd_post_increment_def fwd_pre_increment_def Let_def)

text \<open>The bidirectional and the random-access facade repeat the operator.\<close>

lemma bidir_post_increment_eq: "bidir_post_increment P it = (it, increment P it)"
  by (simp add: bidir_post_increment_def bidir_pre_increment_def Let_def)

lemma ra_post_increment_eq: "ra_post_increment P it = (it, increment P it)"
  by (simp add: ra_post_increment_def ra_pre_increment_def Let_def)

lemma bidir_post_decrement_eq: "bidir_post_decrement P it = (it, decrement P it)"
  by (simp add: bidir_post_decrement_def bidir_pre_decrement_def Let_def)

lemma ra_post_decrement_eq: "ra_post_decrement P it = (it, decrement P it)"
  by (simp add: ra_post_decrement_def ra_pre_decrement_def Let_def)

text \<open>
  C8. On the bidirectional facade, \<^verbatim>\<open>++it; --it\<close> leaves \<open>it\<close> equal, by the
  \<^verbatim>\<open>equals\<close> primitive, to where it started, at every position where
  \<^verbatim>\<open>decrement()\<close> undoes \<^verbatim>\<open>increment()\<close>. Undoing is judged as the iterator itself
  judges positions, by \<^verbatim>\<open>equals\<close>.
\<close>

theorem increment_decrement_round_trip:
  assumes "equals P (decrement P (increment P it)) it"
  shows "equals P (snd (bidir_pre_decrement P (snd (bidir_pre_increment P it)))) it"
  using assms by (simp add: bidir_pre_decrement_def bidir_pre_increment_def Let_def)

theorem increment_decrement_round_trip_witness:
  "equals test_primitives
     (decrement test_primitives (increment test_primitives (TestIterator five 2)))
     (TestIterator five 2 :: const_access test_iterator)
   \<and> equals test_primitives
       (snd (bidir_pre_decrement test_primitives
          (snd (bidir_pre_increment test_primitives (TestIterator five 2)))))
       (TestIterator five 2 :: const_access test_iterator)"
  using increment_decrement_round_trip
      [of test_primitives "TestIterator five 2 :: const_access test_iterator"]
  by (simp add: test_primitives_def test_equals_def test_increment_def test_decrement_def)

text \<open>
  The same holds when \<^verbatim>\<open>decrement()\<close> restores the very state and that state equals
  itself, and on the random-access facade.
\<close>

lemma round_trip_of_state_inverse:
  assumes "decrement P (increment P it) = it" and "equals P it it"
  shows "equals P (snd (bidir_pre_decrement P (snd (bidir_pre_increment P it)))) it"
  using assms by (simp add: bidir_pre_decrement_def bidir_pre_increment_def Let_def)

lemma ra_round_trip:
  assumes "equals P (decrement P (increment P it)) it"
  shows "equals P (snd (ra_pre_decrement P (snd (ra_pre_increment P it)))) it"
  using assms by (simp add: ra_pre_decrement_def ra_pre_increment_def Let_def)

subsection \<open>Offsets\<close>

text \<open>
  C9. \<^verbatim>\<open>a + n\<close> and \<^verbatim>\<open>a - n\<close> leave \<open>a\<close> in the state it had: \<^verbatim>\<open>advance\<close> runs
  on the copy, by \<open>n\<close> and by \<open>-n\<close>, and the advanced copy is the result.
\<close>

theorem offset_plus_minus_leave_operand:
  "snd (ra_plus P a n) = a \<and> fst (ra_plus P a n) = advance P a n
   \<and> snd (ra_minus P a n) = a \<and> fst (ra_minus P a n) = advance P a (- n)"
  by (simp add: ra_plus_def ra_minus_def Let_def)

text \<open>The compound assignments, by contrast, advance the iterator itself.\<close>

lemma ra_plus_assign_eq: "ra_plus_assign P a n = (advance P a n, advance P a n)"
  by (simp add: ra_plus_assign_def Let_def)

lemma ra_minus_assign_eq: "ra_minus_assign P a n = (advance P a (- n), advance P a (- n))"
  by (simp add: ra_minus_assign_def Let_def)

text \<open>
  C7. Where \<^verbatim>\<open>elementAt(n)\<close> of the concrete type agrees with advancing by \<open>n\<close> and
  dereferencing, \<^verbatim>\<open>a[n]\<close> is the element \<^verbatim>\<open>*(a + n)\<close>.
\<close>

theorem index_is_deref_of_plus:
  assumes "elementAt P a n = dereference P (advance P a n)"
  shows "ra_index P a n = ra_deref P (fst (ra_plus P a n))"
  using assms by (simp add: ra_index_def ra_deref_def ra_plus_def Let_def)

theorem index_is_deref_of_plus_witness:
  "elementAt test_primitives (begin_five :: const_access test_iterator) 3
     = dereference test_primitives (advance test_primitives begin_five 3)
   \<and> ra_index test_primitives (begin_five :: const_access test_iterator) 3 = Some 40
   \<and> ra_deref test_primitives
        (fst (ra_plus test_primitives (begin_five :: const_access test_iterator) 3))
       = Some 40"
  using index_is_deref_of_plus [of test_primitives "begin_five :: const_access test_iterator" 3]
  by (simp add: test_primitives_def test_elementAt_def test_dereference_def test_advance_def
      begin_five_def five_def value_at_def ra_index_def)

text \<open>The distance from a position to the one reached by \<^verbatim>\<open>advance(n)\<close> is \<open>n\<close>.\<close>

lemma distance_to_advanced:
  assumes cons: "distance_consistent P inb"
    and refl: "equals_reflexive P inb"
    and a: "inb a" and n: "inb (advance P a n)"
  shows "distanceTo P a (advance P a n) = n"
proof -
  let ?b = "advance P a n"
  from refl n have "equals P ?b ?b"
    by (simp add: equals_reflexive_def)
  moreover from cons a n have "equals P ?b ?b \<longleftrightarrow> n = distanceTo P a ?b"
    by (simp add: distance_consistent_def)
  ultimately show ?thesis
    by simp
qed

lemma difference_of_distance:
  fixes P :: "('it, 'r, 'd::group_add, 'm) random_access_primitives_scheme"
  assumes anti: "distance_antisymmetric P inb"
    and a: "inb a" and b: "inb b"
  shows "ra_difference (same_type P) b a = Some (distanceTo P a b)"
proof -
  from anti a b have "distanceTo P b a = - distanceTo P a b"
    unfolding distance_antisymmetric_def by blast
  then show ?thesis
    by (simp add: ra_difference_def same_type_def EnableIfInterOperable_def
        IsInteroperable_def Conversion_T2_T1_exists_def)
qed

lemma test_advance_zero: "advance_zero_stays test_primitives inb"
  by (simp add: advance_zero_stays_def test_primitives_def test_advance_def)

text \<open>
  Where \<^verbatim>\<open>advance(0)\<close> leaves every position in place, consistency and antisymmetry
  of the distance already make \<^verbatim>\<open>equals\<close> reflexive: the distance from a position
  to itself is its own negation, hence zero, and \<^verbatim>\<open>advance(0)\<close> reaches the position.
\<close>

lemma reflexive_of_advance_zero:
  fixes P :: "('it, 'r, 'd::linordered_ab_group_add, 'm) random_access_primitives_scheme"
  assumes cons: "distance_consistent P inb"
    and anti: "distance_antisymmetric P inb"
    and stay: "advance_zero_stays P inb"
  shows "equals_reflexive P inb"
  unfolding equals_reflexive_def
proof (intro allI impI)
  fix a
  assume a: "inb a"
  from stay a have zero: "advance P a 0 = a"
    by (simp add: advance_zero_stays_def)
  from anti a have "distanceTo P a a = - distanceTo P a a"
    unfolding distance_antisymmetric_def by blast
  then have dist: "distanceTo P a a = 0"
    by simp
  from cons have "inb a \<and> inb a \<and> inb (advance P a 0) \<longrightarrow>
      (equals P (advance P a 0) a \<longleftrightarrow> 0 = distanceTo P a a)"
    unfolding distance_consistent_def by blast
  with a zero dist show "equals P a a"
    by simp
qed

text \<open>
  C6. For a random-access iterator whose \<^verbatim>\<open>advance\<close> and \<^verbatim>\<open>distanceTo\<close> are
  consistent and antisymmetric on the positions within bounds, every position \<open>a\<close> and
  every offset \<open>n\<close> that keeps \<open>a + n\<close> within bounds satisfy \<^verbatim>\<open>(a + n) - a == n\<close>.
  That a position within bounds equals itself is what \<^verbatim>\<open>equals\<close> of an iterator
  means; by \<open>reflexive_of_advance_zero\<close> it is no demand beyond the two conditions
  where \<^verbatim>\<open>advance(0)\<close> does not move.
\<close>

theorem plus_then_difference:
  fixes P :: "('it, 'r, 'd::group_add, 'm) random_access_primitives_scheme"
  assumes cons: "distance_consistent P inb"
    and anti: "distance_antisymmetric P inb"
    and refl: "equals_reflexive P inb"
    and a: "inb a" and n: "inb (advance P a n)"
  shows "ra_difference (same_type P) (fst (ra_plus P a n)) a = Some n"
proof -
  have "fst (ra_plus P a n) = advance P a n"
    by (simp add: ra_plus_def Let_def)
  moreover have "ra_difference (same_type P) (advance P a n) a
      = Some (distanceTo P a (advance P a n))"
    using anti a n by (rule difference_of_distance)
  moreover have "distanceTo P a (advance P a n) = n"
    using cons refl a n by (rule distance_to_advanced)
  ultimately show ?thesis
    by simp
qed

theorem plus_then_difference_witness:
  "distance_consistent test_primitives (test_in_bounds five)
   \<and> distance_antisymmetric test_primitives (test_in_bounds five)
   \<and> equals_reflexive test_primitives (test_in_bounds five)
   \<and> test_in_bounds five (begin_five :: const_access test_iterator)
   \<and> test_in_bounds five (advance test_primitives (begin_five :: const_access test_iterator) 3)
   \<and> ra_difference (same_type test_primitives)
        (fst (ra_plus test_primitives (begin_five :: const_access test_iterator) 3)) begin_five
       = Some 3"
proof -
  have a: "test_in_bounds five (begin_five :: const_access test_iterator)"
    by (simp add: test_in_bounds_def begin_five_def five_def)
  have n: "test_in_bounds five
      (advance test_primitives (begin_five :: const_access test_iterator) 3)"
    by (simp add: test_in_bounds_def begin_five_def five_def test_primitives_def
        test_advance_def)
  show ?thesis
    using plus_then_difference [OF test_consistent test_antisymmetric test_reflexive a n]
      test_consistent [of five] test_antisymmetric [of five] test_reflexive [of five] a n
    by blast
qed

text \<open>
  The same identity from the two distance conditions and \<^verbatim>\<open>advance(0)\<close> staying in
  place, with no word about \<^verbatim>\<open>equals\<close> beyond them.
\<close>

lemma plus_then_difference_of_advance_zero:
  fixes P :: "('it, 'r, 'd::linordered_ab_group_add, 'm) random_access_primitives_scheme"
  assumes cons: "distance_consistent P inb"
    and anti: "distance_antisymmetric P inb"
    and stay: "advance_zero_stays P inb"
    and a: "inb a" and n: "inb (advance P a n)"
  shows "ra_difference (same_type P) (fst (ra_plus P a n)) a = Some n"
proof -
  from cons anti stay have refl: "equals_reflexive P inb"
    by (rule reflexive_of_advance_zero)
  have "fst (ra_plus P a n) = advance P a n"
    by (simp add: ra_plus_def Let_def)
  moreover have "ra_difference (same_type P) (advance P a n) a
      = Some (distanceTo P a (advance P a n))"
    using anti a n by (rule difference_of_distance)
  moreover have "distanceTo P a (advance P a n) = n"
    using cons refl a n by (rule distance_to_advanced)
  ultimately show ?thesis
    by simp
qed

subsection \<open>sign\<close>

text \<open>
  C10. \<open>sign\<close> has two results only: \<open>-1\<close> below zero and \<open>1\<close> everywhere else, so at
  zero it is \<open>1\<close> and never \<open>0\<close>. The order on \<open>T\<close> is any preorder with a zero.
\<close>

theorem sign_zero_is_one:
  fixes val :: "'a::{zero, preorder}"
  shows "sign (0::'a) = 1 \<and> sign val = (if val < 0 then - 1 else 1) \<and> sign val \<noteq> 0"
  by (simp add: sign_def)

end
